theory Spec2Isabelle
  imports Complex_Main
begin

section \<open>Values shared by the services\<close>

text \<open>
  A JavaScript exception is a value: \<open>Error msg\<close> for \<open>throw new Error(msg)\<close> and for an
  error raised by an external service, \<open>TypeError msg\<close> for a call of a property that is
  not a function or a property read on \<open>undefined\<close>/\<open>null\<close>. A function that can throw
  returns \<open>error + 'a\<close>, with \<open>Inl\<close> the thrown error.
\<close>

datatype error = Error string | TypeError string

text \<open>
  A time of day is the string \<open>HH:MM\<close>. The code reads it with
  \<open>time.split(':').map(Number)\<close>; the model keeps the two numbers.
\<close>

record Time =
  hours :: int
  minutes :: int

text \<open>\<open>Number.prototype.toString\<close> on an integer, and \<open>padStart(2, '0')\<close>.\<close>

fun showNat :: "nat \<Rightarrow> string" where
  "showNat n = (if n < 10 then [''0123456789'' ! n]
                else showNat (n div 10) @ [''0123456789'' ! (n mod 10)])"

declare showNat.simps [simp del]

definition toString :: "int \<Rightarrow> string" where
  "toString i = (if i < 0 then CHR ''-'' # showNat (nat (- i)) else showNat (nat i))"

definition padStart2 :: "string \<Rightarrow> string" where
  "padStart2 s = replicate (2 - length s) CHR ''0'' @ s"

section \<open>Availability check (src/models/reservation.ts)\<close>

text \<open>
  The relational store is external. The two queries of \<open>checkAvailability\<close> are fields of
  \<open>Db\<close>: \<open>blockedRows\<close> gives the \<open>reason\<close> column of the rows of \<open>blocked_times\<close>
  matching a date and time (\<open>None\<close> for SQL NULL), \<open>bookingCount\<close> the
  \<open>COUNT(*)\<close> of live reservations within thirty minutes of the slot.
\<close>

record Db =
  blockedRows :: "string \<Rightarrow> Time \<Rightarrow> string option list"
  bookingCount :: "string \<Rightarrow> Time \<Rightarrow> int"

text \<open>
  \<open>MAX_RESERVATIONS_PER_SLOT\<close>, and the hour parts of \<open>BUSINESS_OPENING_HOUR\<close> and
  \<open>BUSINESS_CLOSING_HOUR\<close>, after \<open>parseInt\<close> (defaults 2, 8 and 16).
\<close>

record Config =
  maxPerSlot :: int
  openingHour :: int
  closingHour :: int

record Slot =
  slotDate :: string
  slotTime :: Time
  slotAvailable :: bool

record AvailabilityResult =
  available :: bool
  currentBookings :: "int option"
  maxCapacity :: "int option"
  reason :: "string option"
  alternativeSlots :: "Slot list option"

definition offsets :: "int list" where
  "offsets = [1, -1, 2, -2, 3, -3]"

text \<open>
  \<open>checkAvailability\<close> calls \<open>findAlternativeSlots\<close> on a fully booked slot, and
  \<open>findAlternativeSlots\<close> calls \<open>checkAvailability\<close> on every neighbouring slot it
  probes. The first argument bounds the depth of this mutual recursion: a call of
  \<open>checkAvailability\<close> uses one unit, and \<open>None\<close> is a call that has not returned within
  the bound. \<open>forOffsets\<close> is the \<open>for (const offset of offsets)\<close> loop, with the
  offsets still to visit and the alternatives collected so far.
\<close>

function (sequential) checkAvailability ::
  "nat \<Rightarrow> Db \<Rightarrow> Config \<Rightarrow> string \<Rightarrow> Time \<Rightarrow> int \<Rightarrow> AvailabilityResult option"
and findAlternativeSlots ::
  "nat \<Rightarrow> Db \<Rightarrow> Config \<Rightarrow> string \<Rightarrow> Time \<Rightarrow> nat \<Rightarrow> int \<Rightarrow> Slot list option"
and forOffsets ::
  "nat \<Rightarrow> Db \<Rightarrow> Config \<Rightarrow> string \<Rightarrow> Time \<Rightarrow> nat \<Rightarrow> int \<Rightarrow> int list \<Rightarrow> Slot list
     \<Rightarrow> Slot list option"
where
  "checkAvailability 0 db cfg date time partySize = None"
| "checkAvailability (Suc n) db cfg date time partySize =
     (case blockedRows db date time of
        row # _ \<Rightarrow>
          Some \<lparr>available = False, currentBookings = None, maxCapacity = None,
                reason = Some (case row of
                                 None \<Rightarrow> ''this date/time is not available''
                               | Some r \<Rightarrow> if r = [] then ''this date/time is not available''
                                           else r),
                alternativeSlots = None\<rparr>
      | [] \<Rightarrow>
          (let current = bookingCount db date time in
           if current \<ge> maxPerSlot cfg then
             (case findAlternativeSlots n db cfg date time 3 partySize of
                None \<Rightarrow> None
              | Some alternatives \<Rightarrow>
                  Some \<lparr>available = False, currentBookings = Some current,
                        maxCapacity = Some (maxPerSlot cfg),
                        reason = Some ''This time slot is fully booked'',
                        alternativeSlots = Some alternatives\<rparr>)
           else
             Some \<lparr>available = True, currentBookings = Some current,
                   maxCapacity = Some (maxPerSlot cfg), reason = None,
                   alternativeSlots = None\<rparr>))"
| "findAlternativeSlots n db cfg date preferredTime count partySize =
     forOffsets n db cfg date preferredTime count partySize offsets []"
| "forOffsets n db cfg date preferredTime count partySize [] alternatives = Some alternatives"
| "forOffsets n db cfg date preferredTime count partySize (offset # rest) alternatives =
     (if length alternatives \<ge> count then Some alternatives
      else
        (let newHour = hours preferredTime + offset in
         if newHour \<ge> openingHour cfg \<and> newHour \<le> closingHour cfg then
           (let newTime = \<lparr>hours = newHour, minutes = minutes preferredTime\<rparr> in
            case checkAvailability n db cfg date newTime partySize of
              None \<Rightarrow> None
            | Some availability \<Rightarrow>
                forOffsets n db cfg date preferredTime count partySize rest
                  (if available availability
                   then alternatives @
                        [\<lparr>slotDate = date, slotTime = newTime, slotAvailable = True\<rparr>]
                   else alternatives))
         else forOffsets n db cfg date preferredTime count partySize rest alternatives))"
  by pat_completeness auto

termination
  by (relation "measures
        [case_sum fst (case_sum fst fst),
         case_sum (\<lambda>_. 0) (case_sum (\<lambda>_. 2) (\<lambda>_. 1)),
         case_sum (\<lambda>_. 0) (case_sum (\<lambda>_. 0)
           (\<lambda>(n, db, cfg, date, t, c, p, offs, alts). length offs))]") auto

section \<open>Data model (types/index.ts)\<close>

record Customer =
  customerId :: int
  phone :: string
  full_name :: "string option"
  total_reservations :: int

record Reservation =
  reservationId :: int
  reservation_date :: string
  reservation_time :: Time
  party_size :: int
  status :: string
  confirmation_code :: string

datatype Role = System | User | Assistant | Tool

text \<open>
  \<open>content\<close> is optional because \<open>generateGreeting\<close> can store a message whose content is
  \<open>undefined\<close>; \<open>timestamp\<close> is the reading of \<open>new Date()\<close>.
\<close>

record Message =
  role :: Role
  content :: "string option"
  timestamp :: nat

datatype ConversationStep =
  Greeting | Listening | CollectingInfo | Confirming | Processing | Ending

record SessionState =
  currentStep :: ConversationStep
  confirmationPending :: bool
  transferRequested :: bool
  endRequested :: bool

record Session =
  sessionCallSid :: string
  customer :: "Customer option"
  upcomingReservations :: "Reservation list"
  state :: SessionState
  messageHistory :: "Message list"
  collectedData :: "(string \<times> string) list"
  createdAt :: nat

datatype json =
  JNull | JBool bool | JNum rat | JStr string | JArr "json list" | JObj "(string \<times> json) list"

text \<open>The parameters bound to the \<open>UPDATE call_logs\<close> statement of \<open>completeCall\<close>.\<close>

record CompleteData =
  cStatus :: string
  cDurationSeconds :: "int option"
  cTranscript :: "string option"
  cSummary :: "string option"
  cIntent :: "string option"
  cSentiment :: "json option"
  cSentimentScore :: "rat option"

text \<open>
  The statements of models/callLog.ts that the table \<open>call_logs\<close> can execute: its four
  updates. The insert of \<open>create\<close> is not among them, see \<open>callLogCreate\<close>.
\<close>

datatype CallLogStmt =
    CompleteCall string CompleteData
  | AppendToTranscript string string string
  | MarkTransferred string string
  | LinkReservation string int

text \<open>
  The state the services act on: the Redis session store, keyed by call SID (the key is
  \<open>session:\<close> followed by the SID), the rows of the table \<open>customers\<close>, and the
  statements executed on \<open>call_logs\<close>, oldest first. The expiry of a session key is not
  modelled: an expired session is an absent one.
\<close>

record World =
  sessions :: "string \<rightharpoonup> Session"
  customers :: "Customer list"
  callLogs :: "CallLogStmt list"

text \<open>The argument bag of a tool call, after the handlers' \<open>String\<close> and \<open>parseInt\<close>.\<close>

record Args =
  argDate :: string
  argTime :: Time
  argPartySize :: "int option"
  argReservationId :: "int option"
  argName :: string
  argReason :: string

record FunctionCall =
  fcName :: string
  fcArgs :: Args
  fcId :: string

record ChatResponse =
  chatContent :: "string option"
  functionCall :: "FunctionCall option"

datatype Validation = Valid | Invalid "string option"

text \<open>
  Everything one invocation of a service function receives from outside: environment
  variables, clock readings, and the outcome of each call to an external collaborator
  (the language model, speech synthesis, the relational store).
\<close>

record Env =
  businessName :: "string option"
  maxPartySize :: int
  now :: nat
  later :: nat
  customerStoreError :: "error option"
  newCustomerId :: int
  findUpcomingResult :: "error + Reservation list"
  dbError :: "CallLogStmt \<Rightarrow> error option"
  formatDateForSpeech :: "string \<Rightarrow> string"
  chatResult :: "error + ChatResponse"
  continueResult :: "error + string"
  ttsResult :: "error + string"
  validateReservationResult :: Validation
  database :: Db
  config :: Config
  createResult :: "error + Reservation"
  modifyResult :: "error + Reservation option"
  updateNameResult :: "error option"
  faqResult :: "error + string option"
  summaryResult :: "error + string option"
  intentResult :: "error + string option"
  sentimentResult :: "error + string option"
  jsonParse :: "string \<Rightarrow> json option"

section \<open>Session store (src/config/redis.ts)\<close>

definition setSession :: "World \<Rightarrow> string \<Rightarrow> Session \<Rightarrow> World" where
  "setSession w callSid session = w\<lparr>sessions := (sessions w)(callSid \<mapsto> session)\<rparr>"

definition getSession :: "World \<Rightarrow> string \<Rightarrow> Session option" where
  "getSession w callSid = sessions w callSid"

text \<open>
  \<open>updateSession\<close> and \<open>updateSessionState\<close> take a \<open>Partial\<close> object and spread it over
  the stored value; the model takes the function that overwrites those fields.
\<close>

definition updateSession :: "World \<Rightarrow> string \<Rightarrow> (Session \<Rightarrow> Session) \<Rightarrow> World" where
  "updateSession w callSid updates =
     (case getSession w callSid of
        None \<Rightarrow> w
      | Some session \<Rightarrow> setSession w callSid (updates session))"

definition updateSessionState ::
  "World \<Rightarrow> string \<Rightarrow> (SessionState \<Rightarrow> SessionState) \<Rightarrow> World" where
  "updateSessionState w callSid stateUpdates =
     (case getSession w callSid of
        None \<Rightarrow> w
      | Some session \<Rightarrow>
          setSession w callSid (session\<lparr>state := stateUpdates (state session)\<rparr>))"

definition addMessage :: "World \<Rightarrow> string \<Rightarrow> Message \<Rightarrow> World" where
  "addMessage w callSid message =
     (case getSession w callSid of
        None \<Rightarrow> w
      | Some session \<Rightarrow>
          setSession w callSid (session\<lparr>messageHistory := messageHistory session @ [message]\<rparr>))"

definition deleteSession :: "World \<Rightarrow> string \<Rightarrow> World" where
  "deleteSession w callSid = w\<lparr>sessions := (sessions w)(callSid := None)\<rparr>"

section \<open>Call log (models/callLog.ts)\<close>

definition execStmt :: "World \<Rightarrow> Env \<Rightarrow> CallLogStmt \<Rightarrow> error + World" where
  "execStmt w env stmt =
     (case dbError env stmt of
        Some e \<Rightarrow> Inl e
      | None \<Rightarrow> Inr (w\<lparr>callLogs := callLogs w @ [stmt]\<rparr>))"

text \<open>
  \<open>create\<close> sends
  \<^verbatim>\<open>INSERT INTO call_logs (call_sid, customer_id, from_number, to_number, status)
  VALUES ($1, $2, $3, $4, in-progress) RETURNING *\<close>,
  with the status written outside any quotes. PostgreSQL refuses the statement when it
  parses it (\<open>in\<close> is a reserved word), whatever the parameters are, so \<open>db.query\<close>
  throws on every call and no row is written. Were the status quoted, the column
  \<open>call_sid\<close>, declared \<open>UNIQUE\<close>, would still refuse a second row for the same call.
\<close>

definition callLogCreate ::
  "World \<Rightarrow> Env \<Rightarrow> string \<Rightarrow> string \<Rightarrow> string \<Rightarrow> int \<Rightarrow> error + World" where
  "callLogCreate w env callSid fromNumber toNumber cid =
     Inl (Error (''syntax error at or near '' @ [CHR 0x22] @ ''in'' @ [CHR 0x22]))"

definition truthy :: "json \<Rightarrow> bool" where
  "truthy j = (case j of
                 JNull \<Rightarrow> False
               | JBool b \<Rightarrow> b
               | JNum r \<Rightarrow> r \<noteq> 0
               | JStr s \<Rightarrow> s \<noteq> []
               | JArr _ \<Rightarrow> True
               | JObj _ \<Rightarrow> True)"

definition orNullStr :: "string option \<Rightarrow> string option" where
  "orNullStr v = (case v of None \<Rightarrow> None | Some s \<Rightarrow> if s = [] then None else Some s)"

text \<open>\<open>completeCall\<close> binds every optional field as \<open>data.field || null\<close>.\<close>

definition completeCall :: "World \<Rightarrow> Env \<Rightarrow> string \<Rightarrow> CompleteData \<Rightarrow> error + World" where
  "completeCall w env callSid d =
     execStmt w env
       (CompleteCall callSid
          \<lparr>cStatus = cStatus d,
           cDurationSeconds = (case cDurationSeconds d of
                                 None \<Rightarrow> None
                               | Some n \<Rightarrow> if n = 0 then None else Some n),
           cTranscript = orNullStr (cTranscript d),
           cSummary = orNullStr (cSummary d),
           cIntent = orNullStr (cIntent d),
           cSentiment = (case cSentiment d of
                           None \<Rightarrow> None
                         | Some j \<Rightarrow> if truthy j then Some j else None),
           cSentimentScore = (case cSentimentScore d of
                                None \<Rightarrow> None
                              | Some r \<Rightarrow> if r = 0 then None else Some r)\<rparr>)"

definition appendToTranscript ::
  "World \<Rightarrow> Env \<Rightarrow> string \<Rightarrow> string \<Rightarrow> string \<Rightarrow> error + World" where
  "appendToTranscript w env callSid speaker txt =
     execStmt w env (AppendToTranscript callSid speaker txt)"

definition markTransferred :: "World \<Rightarrow> Env \<Rightarrow> string \<Rightarrow> string \<Rightarrow> error + World" where
  "markTransferred w env callSid why = execStmt w env (MarkTransferred callSid why)"

section \<open>Call analysis (src/services/openai.ts)\<close>

text \<open>
  Each analysis function wraps its request in \<open>try\<close>/\<open>catch\<close>. The outcome of the request
  is \<open>Inl\<close> when \<open>openai.chat.completions.create\<close> throws (or the response has no first
  choice), and otherwise the \<open>content\<close> of the first choice, \<open>None\<close> for \<open>null\<close>.
\<close>

definition generateCallSummary :: "Env \<Rightarrow> string \<Rightarrow> string" where
  "generateCallSummary env transcript =
     (case summaryResult env of
        Inl _ \<Rightarrow> ''Unable to generate summary ''
      | Inr c \<Rightarrow> (case orNullStr c of
                   None \<Rightarrow> ''unable to generate summary''
                 | Some s \<Rightarrow> s))"

text \<open>\<open>toLowerCase\<close> and \<open>trim\<close>, on ASCII.\<close>

definition toLowerCase :: "string \<Rightarrow> string" where
  "toLowerCase s =
     map (\<lambda>c. case map_of (zip ''ABCDEFGHIJKLMNOPQRSTUVWXYZ'' ''abcdefghijklmnopqrstuvwxyz'') c of
                 None \<Rightarrow> c
               | Some l \<Rightarrow> l) s"

definition isSpace :: "char \<Rightarrow> bool" where
  "isSpace c = (c \<in> set [CHR '' '', CHR 0x09, CHR 0x0A, CHR 0x0B, CHR 0x0C, CHR 0x0D])"

definition trim :: "string \<Rightarrow> string" where
  "trim s = rev (dropWhile isSpace (rev (dropWhile isSpace s)))"

definition detectIntent :: "Env \<Rightarrow> string \<Rightarrow> string" where
  "detectIntent env transcript =
     (case intentResult env of
        Inl _ \<Rightarrow> ''unknown''
      | Inr None \<Rightarrow> ''other''
      | Inr (Some c) \<Rightarrow>
          (let t = trim (toLowerCase c) in if t = [] then ''other'' else t))"

record Sentiment =
  sentiment :: json
  score :: rat

text \<open>
  \<open>JSON.parse\<close> is the field \<open>jsonParse\<close> of the environment (\<open>None\<close> when it throws a
  SyntaxError). Reading a property of \<open>null\<close> throws a TypeError, which the \<open>catch\<close>
  turns into the neutral result; a property of any other value that is not an object
  is \<open>undefined\<close>.
\<close>

definition analyzeSentiment :: "Env \<Rightarrow> string \<Rightarrow> Sentiment" where
  "analyzeSentiment env transcript =
     (case sentimentResult env of
        Inl _ \<Rightarrow> \<lparr>sentiment = JStr ''neutral'', score = 0\<rparr>
      | Inr c \<Rightarrow>
          (case jsonParse env (case c of None \<Rightarrow> [] | Some txt \<Rightarrow> txt) of
             None \<Rightarrow> \<lparr>sentiment = JStr ''neutral'', score = 0\<rparr>
           | Some JNull \<Rightarrow> \<lparr>sentiment = JStr ''neutral'', score = 0\<rparr>
           | Some (JObj props) \<Rightarrow>
               \<lparr>sentiment = (case map_of props ''sentiment'' of
                               None \<Rightarrow> JStr ''neutral''
                             | Some v \<Rightarrow> if truthy v then v else JStr ''neutral''),
                score = (case map_of props ''score'' of
                           Some (JNum r) \<Rightarrow> r
                         | _ \<Rightarrow> 0)\<rparr>
           | Some _ \<Rightarrow> \<lparr>sentiment = JStr ''neutral'', score = 0\<rparr>))"

section \<open>Conversation service (src/services/conversation.ts)\<close>

record GreetingResponse =
  greetingText :: "string option"
  greetingAudio :: "string option"

record ConversationResponse =
  responseText :: string
  responseAudio :: "string option"
  shouldEnd :: bool
  shouldTransfer :: bool
  transferReason :: "string option"

record ReservationInfo =
  infoId :: int
  infoDate :: string
  infoTime :: Time
  infoPartySize :: int

datatype Payload =
    DataAvailability AvailabilityResult
  | DataCreated ReservationInfo string
  | DataModified ReservationInfo
  | DataCancelled "int option"
  | DataReservations "ReservationInfo list"
  | DataName string
  | DataFaqMissing string
  | DataFaqFound string
  | DataTransferring
  | DataEnding

record FunctionExecutionResult =
  success :: bool
  resultData :: "Payload option"
  resultError :: "string option"
  resultShouldEnd :: "bool option"
  resultShouldTransfer :: "bool option"
  resultTransferReason :: "string option"

definition failed :: "string option \<Rightarrow> FunctionExecutionResult" where
  "failed e = \<lparr>success = False, resultData = None, resultError = e, resultShouldEnd = None,
               resultShouldTransfer = None, resultTransferReason = None\<rparr>"

definition succeeded :: "Payload \<Rightarrow> FunctionExecutionResult" where
  "succeeded d = \<lparr>success = True, resultData = Some d, resultError = None,
                  resultShouldEnd = None, resultShouldTransfer = None,
                  resultTransferReason = None\<rparr>"

text \<open>
  models/customer.ts. \<open>findOrCreate\<close> returns the row with the caller's phone number, or
  inserts one (the new row has no name and a counter of 0; its id, given by the
  database, is \<open>newCustomerId\<close>). \<open>customerStoreError\<close> is the error of the customer
  queries of this invocation, if they fail.
\<close>

definition findByPhone :: "World \<Rightarrow> string \<Rightarrow> Customer option" where
  "findByPhone w number = find (\<lambda>c. phone c = number) (customers w)"

definition findOrCreate :: "World \<Rightarrow> Env \<Rightarrow> string \<Rightarrow> (error + Customer) \<times> World" where
  "findOrCreate w env number =
     (case customerStoreError env of
        Some e \<Rightarrow> (Inl e, w)
      | None \<Rightarrow>
          (case findByPhone w number of
             Some existing \<Rightarrow> (Inr existing, w)
           | None \<Rightarrow>
               (let created = \<lparr>customerId = newCustomerId env, phone = number,
                               full_name = None, total_reservations = 0\<rparr>
                in (Inr created, w\<lparr>customers := customers w @ [created]\<rparr>))))"

definition customerUpdateName :: "World \<Rightarrow> int \<Rightarrow> string \<Rightarrow> World" where
  "customerUpdateName w cid newName =
     w\<lparr>customers := map (\<lambda>c. if customerId c = cid then c\<lparr>full_name := Some newName\<rparr> else c)
                        (customers w)\<rparr>"

definition initializeConversation ::
  "World \<Rightarrow> Env \<Rightarrow> string \<Rightarrow> string \<Rightarrow> string \<Rightarrow> (error + Session) \<times> World" where
  "initializeConversation w env callSid fromNumber toNumber =
     (case findOrCreate w env fromNumber of
        (Inl e, w0) \<Rightarrow> (Inl e, w0)
      | (Inr cust, w0) \<Rightarrow>
          (case findUpcomingResult env of
             Inl e \<Rightarrow> (Inl e, w0)
           | Inr upcoming \<Rightarrow>
               (case callLogCreate w0 env callSid fromNumber toNumber (customerId cust) of
                  Inl e \<Rightarrow> (Inl e, w0)
                | Inr w1 \<Rightarrow>
                    (let session =
                           \<lparr>sessionCallSid = callSid, customer = Some cust,
                            upcomingReservations = upcoming,
                            state = \<lparr>currentStep = Greeting, confirmationPending = False,
                                     transferRequested = False, endRequested = False\<rparr>,
                            messageHistory = [], collectedData = [], createdAt = now env\<rparr>
                     in (Inr session, setSession w1 callSid session)))))"

text \<open>
  \<open>hours % 12\<close> is the remainder of JavaScript, with the sign of the dividend.
\<close>

definition jsRem :: "int \<Rightarrow> int \<Rightarrow> int" where
  "jsRem a b = (if a < 0 then - ((- a) mod \<bar>b\<bar>) else a mod \<bar>b\<bar>)"

definition formatTimeForDisplay :: "Time \<Rightarrow> string" where
  "formatTimeForDisplay t =
     (let period = (if hours t \<ge> 12 then ''PM'' else ''AM'');
          displayHours = (if jsRem (hours t) 12 = 0 then 12 else jsRem (hours t) 12)
      in if minutes t = 0 then toString displayHours @ '' '' @ period
         else toString displayHours @ '':'' @ padStart2 (toString (minutes t)) @ '' '' @ period)"

text \<open>
  The greeting's first condition reads \<open>reservationModel.length\<close>, not
  \<open>reservations.length\<close>. \<open>reservationModel\<close> is the default export of
  models/reservation.ts, an object of functions with no property \<open>length\<close>, so the
  read gives \<open>undefined\<close> (\<open>None\<close>), and \<open>undefined > 0\<close> is false.
\<close>

definition reservationModel_length :: "int option" where
  "reservationModel_length = None"

definition greaterThanZero :: "int option \<Rightarrow> bool" where
  "greaterThanZero v = (case v of None \<Rightarrow> False | Some n \<Rightarrow> n > 0)"

definition lineBreak :: string where
  "lineBreak = CHR 0x0A # ''    ''"

text \<open>
  The text chosen by \<open>generateGreeting\<close>. There is no final \<open>else\<close>: without a name the
  variable \<open>greeting\<close> stays \<open>undefined\<close> (\<open>None\<close>). \<open>reservations[0]\<close> of an empty list
  is \<open>undefined\<close>, and reading its date throws.
\<close>

definition greetingFor ::
  "Env \<Rightarrow> string \<Rightarrow> Customer option \<Rightarrow> Reservation list \<Rightarrow> error + string option" where
  "greetingFor env business cust reservations =
     (case (case cust of None \<Rightarrow> None | Some c \<Rightarrow> orNullStr (full_name c)) of
        None \<Rightarrow> Inr None
      | Some fullName \<Rightarrow>
          if greaterThanZero reservationModel_length then
            (case reservations of
               [] \<Rightarrow> Inl (TypeError ''Cannot read properties of undefined'')
             | nextRes # _ \<Rightarrow>
                 Inr (Some (''Hello '' @ fullName @ ''! Thank you for calling '' @ business
                   @ lineBreak @ ''I see you have a reservation coming up ''
                   @ formatDateForSpeech env (reservation_date nextRes) @ '' at''
                   @ lineBreak @ formatTimeForDisplay (reservation_time nextRes) @ ''.''
                   @ lineBreak @ ''How can i help you today?'')))
          else
            Inr (Some (''Thank you for calling '' @ business @ ''! I'' @ [CHR 0x27]
              @ ''m your AI assistant and I can help'' @ lineBreak
              @ ''you make a reservation or answer questions about clinic. ''
              @ ''How can i help you today?'')))"

text \<open>
  \<open>ttsService.textToSpeech\<close> cleans its argument with \<open>text.replace\<close> before the request,
  which throws on \<open>undefined\<close>.
\<close>

definition textToSpeech :: "Env \<Rightarrow> string option \<Rightarrow> error + string" where
  "textToSpeech env txt =
     (case txt of
        None \<Rightarrow> Inl (TypeError ''Cannot read properties of undefined'')
      | Some _ \<Rightarrow> ttsResult env)"

definition generateGreeting ::
  "World \<Rightarrow> Env \<Rightarrow> string \<Rightarrow> (error + GreetingResponse) \<times> World" where
  "generateGreeting w env callSid =
     (case getSession w callSid of
        None \<Rightarrow> (Inl (Error (''Session not found: '' @ callSid)), w)
      | Some session \<Rightarrow>
          (let business = (case orNullStr (businessName env) of
                             None \<Rightarrow> ''our clinic''
                           | Some b \<Rightarrow> b)
           in case greetingFor env business (customer session) (upcomingReservations session) of
                Inl e \<Rightarrow> (Inl e, w)
              | Inr greeting \<Rightarrow>
                  (let audio = (case textToSpeech env greeting of
                                  Inl _ \<Rightarrow> None
                                | Inr a \<Rightarrow> Some a);
                       w1 = addMessage w callSid
                              \<lparr>role = Assistant, content = greeting, timestamp = now env\<rparr>;
                       w2 = updateSessionState w1 callSid (\<lambda>st. st\<lparr>currentStep := Listening\<rparr>)
                   in (Inr \<lparr>greetingText = greeting, greetingAudio = audio\<rparr>, w2))))"

text \<open>\<open>validatePartySize\<close> of utils/helpers.ts; \<open>None\<close> is \<open>NaN\<close>.\<close>

definition validatePartySize :: "int \<Rightarrow> int option \<Rightarrow> Validation" where
  "validatePartySize maxSize partySize =
     (case partySize of
        None \<Rightarrow> Invalid (Some ''party size must be a whole number'')
      | Some n \<Rightarrow>
          if n < 1 then Invalid (Some ''Party size must be at least 1 '')
          else if n > maxSize then
            Invalid (Some (''Party size cannot exceed '' @ toString maxSize
              @ ''.For larger groups, please call to speak with a manager.''))
          else Valid)"

text \<open>
  The opening-hours test of \<open>validateReservation\<close> (utils/helpers.ts),
  \<open>time < openingHour || time > closingHour\<close>, on the strings: JavaScript compares
  strings by their code units, which on ASCII is the order of the bytes. \<open>timeString\<close>
  is the \<open>HH:MM\<close> string that \<open>findAlternativeSlots\<close> builds for a slot.
\<close>

fun stringLess :: "string \<Rightarrow> string \<Rightarrow> bool" where
  "stringLess [] [] = False"
| "stringLess [] (y # ys) = True"
| "stringLess (x # xs) [] = False"
| "stringLess (x # xs) (y # ys) =
     (if (of_char x :: nat) < of_char y then True
      else if (of_char y :: nat) < of_char x then False
      else stringLess xs ys)"

definition outsideBusinessHours :: "string \<Rightarrow> string \<Rightarrow> string \<Rightarrow> bool" where
  "outsideBusinessHours opening closing time =
     (stringLess time opening \<or> stringLess closing time)"

definition timeString :: "Time \<Rightarrow> string" where
  "timeString t = padStart2 (toString (hours t)) @ '':'' @ padStart2 (toString (minutes t))"

text \<open>
  \<open>validateReservation\<close> checks the two formats, compares the date and time with the
  clock, and applies the opening-hours test above; its verdict is an input. \<open>None\<close> is
  an availability check that has not returned.
\<close>

definition handleCheckAvailability ::
  "nat \<Rightarrow> Env \<Rightarrow> Args \<Rightarrow> FunctionExecutionResult option" where
  "handleCheckAvailability fuel env args =
     (case validateReservationResult env of
        Invalid e \<Rightarrow> Some (failed e)
      | Valid \<Rightarrow>
          (case validatePartySize (maxPartySize env) (argPartySize args) of
             Invalid e \<Rightarrow> Some (failed e)
           | Valid \<Rightarrow>
               (case checkAvailability fuel (database env) (config env) (argDate args) (argTime args)
                       (case argPartySize args of None \<Rightarrow> 0 | Some n \<Rightarrow> n) of
                  None \<Rightarrow> None
                | Some availability \<Rightarrow> Some (succeeded (DataAvailability availability)))))"

definition reservationInfo :: "Reservation \<Rightarrow> ReservationInfo" where
  "reservationInfo r =
     \<lparr>infoId = reservationId r, infoDate = reservation_date r,
      infoTime = reservation_time r, infoPartySize = party_size r\<rparr>"

text \<open>
  After \<open>reservationModel.create\<close> the handler calls \<open>customerModel.incrementReservation\<close>.
  models/customer.ts exports \<open>incrementReservationCount\<close> and no \<open>incrementReservation\<close>,
  so the call throws a TypeError inside the \<open>try\<close>, and the \<open>catch\<close> answers.
\<close>

definition handleCreateReservation :: "Env \<Rightarrow> Session \<Rightarrow> FunctionExecutionResult" where
  "handleCreateReservation env session =
     (case customer session of
        None \<Rightarrow> failed (Some ''Customer not found'')
      | Some _ \<Rightarrow>
          (case (case createResult env of
                   Inl e \<Rightarrow> Inl e
                 | Inr reservation \<Rightarrow>
                     (Inl (TypeError ''customerModel.incrementReservation is not a function'')
                        :: error + Reservation)) of
             Inl _ \<Rightarrow> failed (Some ''Failed to create reservation'')
           | Inr reservation \<Rightarrow>
               succeeded (DataCreated (reservationInfo reservation)
                            (confirmation_code reservation))))"

definition handleModifyReservation :: "Env \<Rightarrow> FunctionExecutionResult" where
  "handleModifyReservation env =
     (case modifyResult env of
        Inl _ \<Rightarrow> failed (Some ''Failed to modify reservation'')
      | Inr None \<Rightarrow> failed (Some ''Reservation not found'')
      | Inr (Some reservation) \<Rightarrow> succeeded (DataModified (reservationInfo reservation)))"

text \<open>
  \<open>reservationModel.cancle\<close> does not exist (the model exports \<open>cancel\<close>): the call
  throws inside the \<open>try\<close>.
\<close>

definition handleCancleReservation :: "Args \<Rightarrow> FunctionExecutionResult" where
  "handleCancleReservation args =
     (case (Inl (TypeError ''reservationModel.cancle is not a function'')
              :: error + Reservation option) of
        Inl _ \<Rightarrow> failed (Some ''Failed to cancle reservation'')
      | Inr None \<Rightarrow> failed (Some ''Reservation not found'')
      | Inr (Some _) \<Rightarrow> succeeded (DataCancelled (argReservationId args)))"

text \<open>
  The \<open>map\<close> over the reservations reads \<open>r.reservation.time\<close>; \<open>r.reservation\<close> is
  \<open>undefined\<close>, so the callback throws on the first element.
\<close>

definition handleGetReservations :: "Env \<Rightarrow> Session \<Rightarrow> error + FunctionExecutionResult" where
  "handleGetReservations env session =
     (case customer session of
        None \<Rightarrow> Inr (succeeded (DataReservations []))
      | Some _ \<Rightarrow>
          (case findUpcomingResult env of
             Inl e \<Rightarrow> Inl e
           | Inr [] \<Rightarrow> Inr (succeeded (DataReservations []))
           | Inr (_ # _) \<Rightarrow> Inl (TypeError ''Cannot read properties of undefined'')))"

definition handleUpdateName ::
  "World \<Rightarrow> Env \<Rightarrow> Session \<Rightarrow> Args \<Rightarrow> (error + FunctionExecutionResult) \<times> World" where
  "handleUpdateName w env session args =
     (case customer session of
        None \<Rightarrow> (Inr (failed (Some ''Customer not found'')), w)
      | Some c \<Rightarrow>
          (case updateNameResult env of
             Some e \<Rightarrow> (Inl e, w)
           | None \<Rightarrow>
               (Inr (succeeded (DataName (argName args))),
                updateSession (customerUpdateName w (customerId c) (argName args))
                  (sessionCallSid session)
                  (\<lambda>s. s\<lparr>customer := Some (c\<lparr>full_name := Some (argName args)\<rparr>)\<rparr>))))"

definition handleFaq :: "Env \<Rightarrow> error + FunctionExecutionResult" where
  "handleFaq env =
     (case faqResult env of
        Inl e \<Rightarrow> Inl e
      | Inr None \<Rightarrow>
          Inr (succeeded (DataFaqMissing
                 ''No specific information found. Please transfer to staff if needed.''))
      | Inr (Some answer) \<Rightarrow> Inr (succeeded (DataFaqFound answer)))"

definition handleTransfer ::
  "World \<Rightarrow> Env \<Rightarrow> string \<Rightarrow> Args \<Rightarrow> (error + FunctionExecutionResult) \<times> World" where
  "handleTransfer w env callSid args =
     (case markTransferred w env callSid (argReason args) of
        Inl e \<Rightarrow> (Inl e, w)
      | Inr w1 \<Rightarrow>
          (Inr ((succeeded DataTransferring)
                  \<lparr>resultShouldTransfer := Some True,
                   resultTransferReason := Some (argReason args)\<rparr>), w1))"

definition roleName :: "Role \<Rightarrow> string" where
  "roleName r = (case r of System \<Rightarrow> ''system'' | User \<Rightarrow> ''user''
                 | Assistant \<Rightarrow> ''assistant'' | Tool \<Rightarrow> ''tool'')"

fun joinLines :: "string list \<Rightarrow> string" where
  "joinLines [] = []"
| "joinLines [x] = x"
| "joinLines (x # y # ys) = x @ [CHR 0x0A] @ joinLines (y # ys)"

definition transcriptOf :: "Message list \<Rightarrow> string" where
  "transcriptOf history =
     joinLines (map (\<lambda>m. ''['' @ roleName (role m) @ '']: ''
                          @ (case content m of None \<Rightarrow> ''undefined'' | Some c \<Rightarrow> c)) history)"

definition handleEndCall ::
  "World \<Rightarrow> Env \<Rightarrow> string \<Rightarrow> Session \<Rightarrow> (error + FunctionExecutionResult) \<times> World" where
  "handleEndCall w env callSid session =
     (let transcript = (case getSession w callSid of
                          None \<Rightarrow> []
                        | Some refreshedSession \<Rightarrow> transcriptOf (messageHistory refreshedSession));
          summary = generateCallSummary env transcript;
          intent = detectIntent env transcript;
          sent = analyzeSentiment env transcript
      in case completeCall w env callSid
                \<lparr>cStatus = ''completed'', cDurationSeconds = None,
                 cTranscript = Some transcript, cSummary = Some summary,
                 cIntent = Some intent, cSentiment = Some (sentiment sent),
                 cSentimentScore = Some (score sent)\<rparr> of
           Inl e \<Rightarrow> (Inl e, w)
         | Inr w1 \<Rightarrow>
             (Inr ((succeeded DataEnding)\<lparr>resultShouldEnd := Some True\<rparr>),
              deleteSession w1 callSid))"

definition executeFunctionCall ::
  "nat \<Rightarrow> World \<Rightarrow> Env \<Rightarrow> string \<Rightarrow> string \<Rightarrow> Args
     \<Rightarrow> ((error + FunctionExecutionResult) \<times> World) option" where
  "executeFunctionCall fuel w env callSid name args =
     (case getSession w callSid of
        None \<Rightarrow> Some (Inr (failed (Some ''Session not found'')), w)
      | Some session \<Rightarrow>
          if name = ''check_availability'' then
            (case handleCheckAvailability fuel env args of
               None \<Rightarrow> None
             | Some r \<Rightarrow> Some (Inr r, w))
          else if name = ''create_reservation'' then
            Some (Inr (handleCreateReservation env session), w)
          else if name = ''modify_reservation'' then
            Some (Inr (handleModifyReservation env), w)
          else if name = ''cancle_reservation'' then
            Some (Inr (handleCancleReservation args), w)
          else if name = ''get_customer_name'' then
            Some (handleGetReservations env session, w)
          else if name = ''update_customer_name'' then
            Some (handleUpdateName w env session args)
          else if name = ''answer_faq'' then
            Some (handleFaq env, w)
          else if name = ''transfer_to_human'' then
            Some (handleTransfer w env callSid args)
          else if name = ''end_call'' then
            Some (handleEndCall w env callSid session)
          else
            Some (Inr (failed (Some (''Unknown function: '' @ name))), w))"

text \<open>
  The end of \<open>processInput\<close>: speech synthesis (a failure is logged and leaves the audio
  undefined), the assistant message, the two transcript lines, and the response. An
  empty response text skips all of it.
\<close>

definition respond ::
  "World \<Rightarrow> Env \<Rightarrow> string \<Rightarrow> string \<Rightarrow> string \<Rightarrow> bool \<Rightarrow> bool \<Rightarrow> string option
     \<Rightarrow> (error + ConversationResponse) \<times> World" where
  "respond w env callSid userInput txt ending transferring why =
     (if txt \<noteq> [] then
        (let audio = (case textToSpeech env (Some txt) of Inl _ \<Rightarrow> None | Inr a \<Rightarrow> Some a);
             w1 = addMessage w callSid
                    \<lparr>role = Assistant, content = Some txt, timestamp = later env\<rparr>
         in case appendToTranscript w1 env callSid ''user'' userInput of
              Inl e \<Rightarrow> (Inl e, w1)
            | Inr w2 \<Rightarrow>
                (case appendToTranscript w2 env callSid ''assistant'' txt of
                   Inl e \<Rightarrow> (Inl e, w2)
                 | Inr w3 \<Rightarrow>
                     (Inr \<lparr>responseText = txt, responseAudio = audio, shouldEnd = ending,
                           shouldTransfer = transferring, transferReason = why\<rparr>, w3)))
      else
        (Inr \<lparr>responseText = txt, responseAudio = None, shouldEnd = ending,
              shouldTransfer = transferring, transferReason = why\<rparr>, w))"

definition processInput ::
  "nat \<Rightarrow> World \<Rightarrow> Env \<Rightarrow> string \<Rightarrow> string
     \<Rightarrow> ((error + ConversationResponse) \<times> World) option" where
  "processInput fuel w env callSid userInput =
     (case getSession w callSid of
        None \<Rightarrow> Some (Inl (Error (''Session not found: '' @ callSid)), w)
      | Some session \<Rightarrow>
          (let w1 = addMessage w callSid
                      \<lparr>role = User, content = Some userInput, timestamp = now env\<rparr>
           in case getSession w1 callSid of
                None \<Rightarrow> Some (Inl (Error ''Session lost during processing''), w1)
              | Some updatedSession \<Rightarrow>
                  (case chatResult env of
                     Inl e \<Rightarrow> Some (Inl e, w1)
                   | Inr response \<Rightarrow>
                       (case functionCall response of
                          None \<Rightarrow>
                            Some (respond w1 env callSid userInput
                                    (case chatContent response of None \<Rightarrow> [] | Some c \<Rightarrow> c)
                                    False False None)
                        | Some fc \<Rightarrow>
                            (case executeFunctionCall fuel w1 env callSid (fcName fc) (fcArgs fc) of
                               None \<Rightarrow> None
                             | Some (Inl e, w2) \<Rightarrow> Some (Inl e, w2)
                             | Some (Inr result, w2) \<Rightarrow>
                                 (case continueResult env of
                                    Inl e \<Rightarrow> Some (Inl e, w2)
                                  | Inr txt \<Rightarrow>
                                      Some (respond w2 env callSid userInput txt
                                              (case resultShouldEnd result of
                                                 None \<Rightarrow> False | Some b \<Rightarrow> b)
                                              (case resultShouldTransfer result of
                                                 None \<Rightarrow> False | Some b \<Rightarrow> b)
                                              (resultTransferReason result))))))))"


section \<open>Media stream connection (src/routes/twilio.ts)\<close>

text \<open>
  One WebSocket connection of \<open>setupMediaStreamWebSocket\<close>. The handler's local variables
  \<open>callSid\<close>, \<open>streamSid\<close> and \<open>isProcessing\<close> are fields of \<open>Stream\<close>. JavaScript runs a
  callback without interruption up to its next \<open>await\<close>, so the connection is a state
  machine over these events: the \<open>start\<close> message, a final or an interim transcript
  delivered by the transcription service, and the moment the pending
  \<open>processInput\<close> call of an accepted transcript settles. \<open>inFlight\<close> holds the arguments
  of that pending call, \<open>rounds\<close> lists the calls of \<open>processInput\<close> made so far, and
  \<open>outbox\<close> what the handler has sent to the transport.
\<close>

datatype Outbound = SendAudio string string | HangupCall string | TransferCall string

record Stream =
  streamCallSid :: "string option"
  streamSid :: "string option"
  isProcessing :: bool
  inFlight :: "(string \<times> string) option"
  rounds :: "(string \<times> string) list"
  outbox :: "Outbound list"
  world :: World

datatype StreamEvent =
    Start "string option" "string option" Env
  | FinalTranscript string
  | InterimTranscript string
  | TurnSettles nat Env

definition onStart :: "Stream \<Rightarrow> string option \<Rightarrow> string option \<Rightarrow> Env \<Rightarrow> Stream" where
  "onStart s cs ss env =
     (let s1 = s\<lparr>streamCallSid := orNullStr cs, streamSid := orNullStr ss\<rparr>
      in case streamCallSid s1 of
           None \<Rightarrow> s1
         | Some callSid \<Rightarrow>
             (case generateGreeting (world s1) env callSid of
                (Inl e, w1) \<Rightarrow> s1\<lparr>world := w1\<rparr>
              | (Inr greeting, w1) \<Rightarrow>
                  s1\<lparr>world := w1,
                     outbox := outbox s1 @
                       (case (greetingAudio greeting, streamSid s1) of
                          (Some audio, Some sid) \<Rightarrow> [SendAudio sid audio]
                        | _ \<Rightarrow> [])\<rparr>))"

text \<open>
  \<open>onTranscript\<close> up to its first \<open>await\<close>: the guard, then the flag, then the call of
  \<open>processInput\<close>.
\<close>

definition onTranscript :: "Stream \<Rightarrow> string \<Rightarrow> Stream" where
  "onTranscript s txt =
     (case orNullStr (streamCallSid s) of
        None \<Rightarrow> s
      | Some callSid \<Rightarrow>
          if isProcessing s then s
          else s\<lparr>isProcessing := True, inFlight := Some (callSid, txt),
                 rounds := rounds s @ [(callSid, txt)]\<rparr>)"

text \<open>
  The rest of \<open>onTranscript\<close>, once the pending \<open>processInput\<close> has returned or thrown:
  the audio, the call control, and the \<open>finally\<close> block. A call that has not returned
  leaves the connection as it is.
\<close>

definition turnSettles :: "Stream \<Rightarrow> nat \<Rightarrow> Env \<Rightarrow> Stream" where
  "turnSettles s fuel env =
     (case inFlight s of
        None \<Rightarrow> s
      | Some (callSid, txt) \<Rightarrow>
          (case processInput fuel (world s) env callSid txt of
             None \<Rightarrow> s
           | Some (Inl e, w1) \<Rightarrow> s\<lparr>world := w1, isProcessing := False, inFlight := None\<rparr>
           | Some (Inr response, w1) \<Rightarrow>
               s\<lparr>world := w1,
                  outbox := outbox s @
                    (case (responseAudio response, streamSid s) of
                       (Some audio, Some sid) \<Rightarrow> [SendAudio sid audio]
                     | _ \<Rightarrow> []) @
                    (case orNullStr (streamCallSid s) of
                       None \<Rightarrow> []
                     | Some c \<Rightarrow>
                         if shouldEnd response then [HangupCall c]
                         else if shouldTransfer response then [TransferCall c]
                         else []),
                  isProcessing := False, inFlight := None\<rparr>))"

fun step :: "Stream \<Rightarrow> StreamEvent \<Rightarrow> Stream" where
  "step s (Start cs ss env) = onStart s cs ss env"
| "step s (FinalTranscript txt) = onTranscript s txt"
| "step s (InterimTranscript txt) = s"
| "step s (TurnSettles fuel env) = turnSettles s fuel env"

definition run :: "Stream \<Rightarrow> StreamEvent list \<Rightarrow> Stream" where
  "run s events = foldl step s events"

section \<open>Several turns of one call\<close>







definition isTranscript :: "StreamEvent \<Rightarrow> bool" where
  "isTranscript e = (case e of FinalTranscript _ \<Rightarrow> True | InterimTranscript _ \<Rightarrow> True
                     | _ \<Rightarrow> False)"

section \<open>Call finalization\<close>



definition completions :: "string \<Rightarrow> World \<Rightarrow> CallLogStmt list" where
  "completions callSid w =
     filter (\<lambda>stmt. case stmt of CompleteCall c _ \<Rightarrow> c = callSid | _ \<Rightarrow> False) (callLogs w)"

section \<open>Specification-side definitions and concrete inputs\<close>

text \<open>
  The alternative-slot search as the specification words it: the slot an offset leads
  to, and the test that an offset is inside the opening hours and that the
  availability check of its slot, run with depth bound \<open>n\<close>, answers available.
\<close>

definition slotAt :: "string \<Rightarrow> Time \<Rightarrow> int \<Rightarrow> Slot" where
  "slotAt date preferredTime offset =
     \<lparr>slotDate = date,
      slotTime = \<lparr>hours = hours preferredTime + offset, minutes = minutes preferredTime\<rparr>,
      slotAvailable = True\<rparr>"

definition probeFree :: "nat \<Rightarrow> Db \<Rightarrow> Config \<Rightarrow> string \<Rightarrow> Time \<Rightarrow> int \<Rightarrow> int \<Rightarrow> bool" where
  "probeFree n db cfg date preferredTime partySize offset =
     (openingHour cfg \<le> hours preferredTime + offset \<and>
      hours preferredTime + offset \<le> closingHour cfg \<and>
      (case checkAvailability n db cfg date
              \<lparr>hours = hours preferredTime + offset, minutes = minutes preferredTime\<rparr>
              partySize of
         None \<Rightarrow> False
       | Some availability \<Rightarrow> available availability))"

text \<open>A slot whose own check answers without searching for alternatives: it is
  blocked, or it is not fully booked.\<close>

definition slotOpen :: "Db \<Rightarrow> Config \<Rightarrow> string \<Rightarrow> Time \<Rightarrow> bool" where
  "slotOpen db cfg date t =
     (blockedRows db date t \<noteq> [] \<or> bookingCount db date t < maxPerSlot cfg)"

text \<open>The default configuration, a day on which only the 10:00 slot is fully booked,
  a day on which only the slot around 15:30 is, and a day on which the 10:00 and the
  11:00 slots both are.\<close>

definition defaultConfig :: Config where
  "defaultConfig = \<lparr>maxPerSlot = 2, openingHour = 8, closingHour = 16\<rparr>"

definition oneFullDb :: Db where
  "oneFullDb = \<lparr>blockedRows = (\<lambda>date t. []),
                 bookingCount = (\<lambda>date t. if hours t = 10 then 2 else 0)\<rparr>"

definition lateDb :: Db where
  "lateDb = \<lparr>blockedRows = (\<lambda>date t. []),
              bookingCount = (\<lambda>date t. if hours t = 15 then 2 else 0)\<rparr>"

definition twoFullDb :: Db where
  "twoFullDb = \<lparr>blockedRows = (\<lambda>date t. []),
                 bookingCount = (\<lambda>date t. if hours t = 10 \<or> hours t = 11 then 2 else 0)\<rparr>"

text \<open>
  A known caller with one upcoming reservation, a caller whose record has no name, and
  an environment in which every external call succeeds and the language model answers
  with plain text.
\<close>

definition alice :: Customer where
  "alice = \<lparr>customerId = 7, phone = ''+15550100'', full_name = Some ''Alice'',
            total_reservations = 1\<rparr>"

definition stranger :: Customer where
  "stranger = \<lparr>customerId = 8, phone = ''+15550111'', full_name = None,
               total_reservations = 0\<rparr>"

definition dinner :: Reservation where
  "dinner = \<lparr>reservationId = 12, reservation_date = ''2025-06-01'',
             reservation_time = \<lparr>hours = 19, minutes = 0\<rparr>, party_size = 4,
             status = ''confirmed'', confirmation_code = ''ABC234''\<rparr>"

definition noArgs :: Args where
  "noArgs = \<lparr>argDate = [], argTime = \<lparr>hours = 0, minutes = 0\<rparr>, argPartySize = None,
             argReservationId = None, argName = [], argReason = []\<rparr>"

definition quietEnv :: Env where
  "quietEnv =
     \<lparr>businessName = None, maxPartySize = 20, now = 1, later = 2,
      customerStoreError = None, newCustomerId = 9, findUpcomingResult = Inr [dinner],
      dbError = (\<lambda>stmt. None), formatDateForSpeech = (\<lambda>date. date),
      chatResult = Inr \<lparr>chatContent = Some ''Sure.'', functionCall = None\<rparr>,
      continueResult = Inr ''Done.'', ttsResult = Inr ''mp3'',
      validateReservationResult = Valid, database = oneFullDb, config = defaultConfig,
      createResult = Inl (Error ''insert failed''), modifyResult = Inr None,
      updateNameResult = None, faqResult = Inr None,
      summaryResult = Inr (Some ''A short call.''), intentResult = Inr (Some ''inquiry''),
      sentimentResult = Inr (Some ''{}''), jsonParse = (\<lambda>txt. Some (JObj []))\<rparr>"

definition newSession :: "string \<Rightarrow> Customer option \<Rightarrow> Reservation list \<Rightarrow> Session" where
  "newSession callSid cust upcoming =
     \<lparr>sessionCallSid = callSid, customer = cust, upcomingReservations = upcoming,
      state = \<lparr>currentStep = Greeting, confirmationPending = False,
               transferRequested = False, endRequested = False\<rparr>,
      messageHistory = [], collectedData = [], createdAt = 1\<rparr>"

definition emptyWorld :: World where
  "emptyWorld = \<lparr>sessions = Map.empty, customers = [], callLogs = []\<rparr>"

definition worldWith :: "Session \<Rightarrow> World" where
  "worldWith session =
     \<lparr>sessions = [sessionCallSid session \<mapsto> session],
      customers = (case customer session of None \<Rightarrow> [] | Some c \<Rightarrow> [c]),
      callLogs = []\<rparr>"

text \<open>A session that already holds one user entry, and an environment in which the
  three analysis requests of finalization all fail.\<close>

definition talked :: Session where
  "talked = (newSession ''CA1'' (Some alice) [dinner])
              \<lparr>messageHistory := [\<lparr>role = User, content = Some ''hello'', timestamp = 1\<rparr>]\<rparr>"

definition failingAnalysisEnv :: Env where
  "failingAnalysisEnv =
     quietEnv\<lparr>summaryResult := Inl (Error ''timeout''), intentResult := Inl (Error ''timeout''),
              sentimentResult := Inl (Error ''timeout'')\<rparr>"


definition brokenEnv :: Env where
  "brokenEnv = quietEnv\<lparr>chatResult := Inl (Error ''model unavailable'')\<rparr>"


definition idleStream :: Stream where
  "idleStream = \<lparr>streamCallSid = Some ''CA1'', streamSid = Some ''MZ1'', isProcessing = False,
                 inFlight = None, rounds = [], outbox = [],
                 world = worldWith (newSession ''CA1'' (Some alice) [dinner])\<rparr>"

text \<open>
  An environment in which only the intent request of finalization fails, and one in
  which the language model asks for the action \<open>end_call\<close>.
\<close>

definition intentFailsEnv :: Env where
  "intentFailsEnv =
     quietEnv\<lparr>intentResult := Inl (Error ''timeout''),
              sentimentResult := Inr (Some ''happy''),
              jsonParse := (\<lambda>c. Some (JObj [(''sentiment'', JStr ''positive''),
                                              (''score'', JNum (7 / 10))]))\<rparr>"


text \<open>
  The transcript \<open>handleEndCall\<close> reads back from the session store, and the completion
  record it hands to \<open>completeCall\<close>, as bound to the statement.
\<close>

definition storedTranscript :: "World \<Rightarrow> string \<Rightarrow> string" where
  "storedTranscript w callSid =
     (case getSession w callSid of
        None \<Rightarrow> []
      | Some refreshedSession \<Rightarrow> transcriptOf (messageHistory refreshedSession))"

definition completionRecord :: "World \<Rightarrow> Env \<Rightarrow> string \<Rightarrow> CompleteData" where
  "completionRecord w env callSid =
     \<lparr>cStatus = ''completed'', cDurationSeconds = None,
      cTranscript = orNullStr (Some (storedTranscript w callSid)),
      cSummary = Some (generateCallSummary env (storedTranscript w callSid)),
      cIntent = Some (detectIntent env (storedTranscript w callSid)),
      cSentiment = Some (sentiment (analyzeSentiment env (storedTranscript w callSid))),
      cSentimentScore =
        (if score (analyzeSentiment env (storedTranscript w callSid)) = 0 then None
         else Some (score (analyzeSentiment env (storedTranscript w callSid))))\<rparr>"

section \<open>The alternative-slot search\<close>

lemma forOffsets_take:
  "forOffsets n db cfg date t count p offs alts = Some res \<Longrightarrow> length alts < count \<Longrightarrow>
   res = take count (alts @ map (slotAt date t) (filter (probeFree n db cfg date t p) offs))"
proof (induction offs arbitrary: alts)
  case Nil
  then show ?case by simp
next
  case (Cons offset rest)
  show ?case
  proof (cases "probeFree n db cfg date t p offset")
    case True
    then obtain a where a: "checkAvailability n db cfg date
        \<lparr>hours = hours t + offset, minutes = minutes t\<rparr> p = Some a" "available a"
      and inh: "openingHour cfg \<le> hours t + offset" "hours t + offset \<le> closingHour cfg"
      by (auto simp: probeFree_def split: option.splits)
    from Cons.prems a inh
    have rec: "forOffsets n db cfg date t count p rest (alts @ [slotAt date t offset]) = Some res"
      by (simp add: slotAt_def Let_def)
    show ?thesis
    proof (cases "length alts + 1 < count")
      case True
      with Cons.IH[OF rec] \<open>probeFree n db cfg date t p offset\<close> show ?thesis by simp
    next
      case False
      with Cons.prems(2) have len: "length (alts @ [slotAt date t offset]) = count" by simp
      then have "res = alts @ [slotAt date t offset]"
        using rec by (cases rest) simp_all
      moreover from len have "count - length alts = Suc 0" by simp
      ultimately show ?thesis using \<open>probeFree n db cfg date t p offset\<close> by simp
    qed
  next
    case False
    with Cons.prems
    have rec: "forOffsets n db cfg date t count p rest alts = Some res"
      by (auto simp: probeFree_def Let_def split: option.splits if_splits)
    from Cons.IH[OF rec Cons.prems(2)] False show ?thesis by simp
  qed
qed

text \<open>
  The check returns, with depth 2, whenever none of the neighbouring slots inside the
  opening hours is itself fully booked.
\<close>

lemma open_slot_returns:
  "slotOpen db cfg date t \<Longrightarrow> checkAvailability (Suc n) db cfg date t p \<noteq> None"
  by (auto simp: slotOpen_def Let_def split: list.splits)

lemma forOffsets_returns:
  "(\<And>off. off \<in> set offs \<Longrightarrow>
      openingHour cfg \<le> hours t + off \<Longrightarrow> hours t + off \<le> closingHour cfg \<Longrightarrow>
      slotOpen db cfg date \<lparr>hours = hours t + off, minutes = minutes t\<rparr>) \<Longrightarrow>
   forOffsets (Suc n) db cfg date t count p offs alts \<noteq> None"
proof (induction offs arbitrary: alts)
  case Nil
  show ?case by simp
next
  case (Cons off rest)
  have rest: "forOffsets (Suc n) db cfg date t count p rest a \<noteq> None" for a
    by (rule Cons.IH) (simp add: Cons.prems)
  show ?case
  proof (cases "openingHour cfg \<le> hours t + off \<and> hours t + off \<le> closingHour cfg")
    case True
    with Cons.prems[of off]
    have "slotOpen db cfg date \<lparr>hours = hours t + off, minutes = minutes t\<rparr>" by simp
    from open_slot_returns[OF this, of n p] obtain a where
      "checkAvailability (Suc n) db cfg date \<lparr>hours = hours t + off, minutes = minutes t\<rparr> p = Some a"
      by blast
    with True rest show ?thesis by (auto simp: Let_def simp del: checkAvailability.simps)
  next
    case False
    with rest show ?thesis by (auto simp: Let_def simp del: checkAvailability.simps)
  qed
qed

lemma checkAvailability_returns:
  assumes "\<And>off. off \<in> set offsets \<Longrightarrow>
      openingHour cfg \<le> hours t + off \<Longrightarrow> hours t + off \<le> closingHour cfg \<Longrightarrow>
      slotOpen db cfg date \<lparr>hours = hours t + off, minutes = minutes t\<rparr>"
  shows "checkAvailability (Suc (Suc n)) db cfg date t p \<noteq> None"
proof -
  from forOffsets_returns[of offsets cfg t db date n 3 p "[]"] assms
  have "forOffsets (Suc n) db cfg date t 3 p offsets [] \<noteq> None" by blast
  then show ?thesis
    by (auto simp: Let_def simp del: forOffsets.simps checkAvailability.simps(2)
          simp add: checkAvailability.simps(2)[of "Suc n"] split: list.splits)
qed

lemma twoFull_both_none:
  "checkAvailability n twoFullDb defaultConfig date \<lparr>hours = 10, minutes = m\<rparr> p = None \<and>
   checkAvailability n twoFullDb defaultConfig date \<lparr>hours = 11, minutes = m\<rparr> p = None"
proof (induction n)
  case 0
  show ?case by simp
next
  case (Suc n)
  have [simp]: "blockedRows twoFullDb = (\<lambda>d t. [])"
    "bookingCount twoFullDb = (\<lambda>date t. if hours t = 10 \<or> hours t = 11 then 2 else 0)"
    by (simp_all add: twoFullDb_def)
  from Suc show ?case
    by (simp add: defaultConfig_def offsets_def Let_def split: option.splits)
qed

text \<open>
  C3. The claim is that the availability check with its alternative-slot search always
  terminates. On a day where the 10:00 and the 11:00 slots are both fully booked, the
  check of 10:00 probes 11:00, whose own search probes 10:00 again, and so on: whatever
  the depth bound, the call has not returned.
\<close>

theorem checkAvailability_never_returns:
  "checkAvailability fuel twoFullDb defaultConfig ''2025-06-01''
     \<lparr>hours = 10, minutes = 0\<rparr> 4 = None"
  using twoFull_both_none by blast

text \<open>
  Whenever the check of a fully booked slot returns, its list of alternatives has at
  most 3 entries, every entry has its hour between the opening and the closing hour,
  and the list is the first three, in the order +1, -1, +2, -2, +3, -3, of the offsets
  whose hour is inside the opening hours and whose slot is available.
\<close>

lemma alternatives_nearest_first:
  assumes "checkAvailability fuel db cfg date t p = Some r"
    and "alternativeSlots r = Some alts"
  shows "length alts \<le> 3 \<and>
         (\<forall>s \<in> set alts. openingHour cfg \<le> hours (slotTime s) \<and>
                          hours (slotTime s) \<le> closingHour cfg) \<and>
         (\<exists>n. fuel = Suc n \<and>
              alts = take 3 (map (slotAt date t)
                       (filter (probeFree n db cfg date t p) [1, -1, 2, -2, 3, -3])))"
proof -
  from assms(1) obtain n where fuel: "fuel = Suc n"
    by (cases fuel) simp_all
  from assms fuel have "forOffsets n db cfg date t 3 p offsets [] = Some alts"
    by (auto simp: Let_def split: list.splits if_splits option.splits)
  from forOffsets_take[OF this]
  have eq: "alts = take 3 (map (slotAt date t) (filter (probeFree n db cfg date t p) offsets))"
    by simp
  have "openingHour cfg \<le> hours (slotTime s) \<and> hours (slotTime s) \<le> closingHour cfg"
    if "s \<in> set alts" for s
  proof -
    from that eq
    have "s \<in> set (map (slotAt date t) (filter (probeFree n db cfg date t p) offsets))"
      by (metis in_set_takeD)
    then obtain off where "s = slotAt date t off" "probeFree n db cfg date t p off"
      by auto
    then show ?thesis by (simp add: slotAt_def probeFree_def)
  qed
  moreover from eq have "length alts \<le> 3"
    by (metis length_take min.cobounded2)
  moreover from eq
  have "alts = take 3 (map (slotAt date t)
                  (filter (probeFree n db cfg date t p) [1, -1, 2, -2, 3, -3]))"
    by (simp only: offsets_def)
  ultimately show ?thesis using fuel by blast
qed

lemma alternatives_example:
  "checkAvailability (Suc (Suc 0)) oneFullDb defaultConfig ''2025-06-01''
      \<lparr>hours = 10, minutes = 0\<rparr> 4
     = Some \<lparr>available = False, currentBookings = Some 2, maxCapacity = Some 2,
             reason = Some ''This time slot is fully booked'',
             alternativeSlots = Some [slotAt ''2025-06-01'' \<lparr>hours = 10, minutes = 0\<rparr> 1,
                                      slotAt ''2025-06-01'' \<lparr>hours = 10, minutes = 0\<rparr> (- 1),
                                      slotAt ''2025-06-01'' \<lparr>hours = 10, minutes = 0\<rparr> 2]\<rparr> \<and>
   length [slotAt ''2025-06-01'' \<lparr>hours = 10, minutes = 0\<rparr> 1,
           slotAt ''2025-06-01'' \<lparr>hours = 10, minutes = 0\<rparr> (- 1),
           slotAt ''2025-06-01'' \<lparr>hours = 10, minutes = 0\<rparr> 2] \<le> 3 \<and>
   openingHour defaultConfig
     \<le> hours (slotTime (slotAt ''2025-06-01'' \<lparr>hours = 10, minutes = 0\<rparr> (- 1))) \<and>
   hours (slotTime (slotAt ''2025-06-01'' \<lparr>hours = 10, minutes = 0\<rparr> 2))
     \<le> closingHour defaultConfig"
proof -
  let ?alts = "[slotAt ''2025-06-01'' \<lparr>hours = 10, minutes = 0\<rparr> 1,
                slotAt ''2025-06-01'' \<lparr>hours = 10, minutes = 0\<rparr> (- 1),
                slotAt ''2025-06-01'' \<lparr>hours = 10, minutes = 0\<rparr> 2]"
  let ?r = "\<lparr>available = False, currentBookings = Some 2, maxCapacity = Some 2,
             reason = Some ''This time slot is fully booked'',
             alternativeSlots = Some ?alts\<rparr>"
  have run: "checkAvailability (Suc (Suc 0)) oneFullDb defaultConfig ''2025-06-01''
               \<lparr>hours = 10, minutes = 0\<rparr> 4 = Some ?r"
    by (simp add: oneFullDb_def defaultConfig_def offsets_def slotAt_def Let_def)
  have alts: "alternativeSlots ?r = Some ?alts"
    by simp
  note inst = alternatives_nearest_first[OF run alts]
  from inst have "length ?alts \<le> 3" by blast
  moreover from inst
  have "\<forall>s \<in> set ?alts. openingHour defaultConfig \<le> hours (slotTime s) \<and>
                           hours (slotTime s) \<le> closingHour defaultConfig"
    by blast
  then have "openingHour defaultConfig
               \<le> hours (slotTime (slotAt ''2025-06-01'' \<lparr>hours = 10, minutes = 0\<rparr> (- 1)))"
    and "hours (slotTime (slotAt ''2025-06-01'' \<lparr>hours = 10, minutes = 0\<rparr> 2))
               \<le> closingHour defaultConfig"
    by simp_all
  ultimately show ?thesis using run by blast
qed

text \<open>
  C4. The claim is that every alternative returned for a fully booked slot is within
  business hours. With the hours 08:00 to 16:00 and the slot at 15:30 fully booked, the
  check returns, for every depth bound from 2 on, the alternatives 16:30, 14:30 and
  13:30: the search compares the hour 16 with the closing hour 16 and carries the
  minutes over. 16:30 is after closing, and the opening-hours test of
  \<open>validateReservation\<close> refuses it.
\<close>

theorem late_alternative_offered:
  "checkAvailability (Suc (Suc n)) lateDb defaultConfig ''2025-06-01''
      \<lparr>hours = 15, minutes = 30\<rparr> 4
     = Some \<lparr>available = False, currentBookings = Some 2, maxCapacity = Some 2,
             reason = Some ''This time slot is fully booked'',
             alternativeSlots =
               Some [\<lparr>slotDate = ''2025-06-01'', slotTime = \<lparr>hours = 16, minutes = 30\<rparr>,
                      slotAvailable = True\<rparr>,
                     \<lparr>slotDate = ''2025-06-01'', slotTime = \<lparr>hours = 14, minutes = 30\<rparr>,
                      slotAvailable = True\<rparr>,
                     \<lparr>slotDate = ''2025-06-01'', slotTime = \<lparr>hours = 13, minutes = 30\<rparr>,
                      slotAvailable = True\<rparr>]\<rparr> \<and>
   closingHour defaultConfig = 16 \<and>
   timeString \<lparr>hours = 16, minutes = 30\<rparr> = ''16:30'' \<and>
   outsideBusinessHours ''08:00'' ''16:00'' ''16:30''"
proof -
  have shown: "timeString \<lparr>hours = 16, minutes = 30\<rparr> = ''16:30''"
    by (simp add: timeString_def toString_def padStart2_def showNat.simps)
  have refused: "outsideBusinessHours ''08:00'' ''16:00'' ''16:30''"
    by (simp add: outsideBusinessHours_def)
  have "checkAvailability (Suc (Suc n)) lateDb defaultConfig ''2025-06-01''
          \<lparr>hours = 15, minutes = 30\<rparr> 4
     = Some \<lparr>available = False, currentBookings = Some 2, maxCapacity = Some 2,
             reason = Some ''This time slot is fully booked'',
             alternativeSlots =
               Some [\<lparr>slotDate = ''2025-06-01'', slotTime = \<lparr>hours = 16, minutes = 30\<rparr>,
                      slotAvailable = True\<rparr>,
                     \<lparr>slotDate = ''2025-06-01'', slotTime = \<lparr>hours = 14, minutes = 30\<rparr>,
                      slotAvailable = True\<rparr>,
                     \<lparr>slotDate = ''2025-06-01'', slotTime = \<lparr>hours = 13, minutes = 30\<rparr>,
                      slotAvailable = True\<rparr>]\<rparr>"
    by (simp add: lateDb_def defaultConfig_def offsets_def Let_def)
  with shown refused show ?thesis by (simp add: defaultConfig_def)
qed

section \<open>Turns and the session\<close>

text \<open>
  C8. A finalized transcript for a call whose session cannot be found makes
  \<open>processInput\<close> throw the error "Session not found" and leaves the session store and
  the call log as they were: no session is created for the call.
\<close>

theorem processInput_session_missing:
  "getSession w callSid = None \<Longrightarrow>
   processInput fuel w env callSid userInput
     = Some (Inl (Error (''Session not found: '' @ callSid)), w)"
  by (simp add: processInput_def)

theorem processInput_session_missing_witness:
  "getSession emptyWorld ''CA1'' = None \<and>
   processInput 0 emptyWorld quietEnv ''CA1'' ''book a table''
     = Some (Inl (Error ''Session not found: CA1''), emptyWorld)"
proof -
  have none: "getSession emptyWorld ''CA1'' = None"
    by (simp add: getSession_def emptyWorld_def)
  from processInput_session_missing[OF none, of 0 quietEnv "''book a table''"] none
  show ?thesis by simp
qed

section \<open>The dispatcher\<close>

text \<open>
  C10. The claim is that the action \<open>get_customer_reservations\<close> reaches the read-only
  reservations handler and, with no caller identity, answers success with an empty
  list. The dispatcher's case for that handler is spelled \<open>get_customer_name\<close>: for a
  session without a caller, \<open>get_customer_reservations\<close> falls to the default case and
  answers "Unknown function", while \<open>get_customer_name\<close> gives the empty list.
\<close>

theorem reservations_action_unknown:
  "executeFunctionCall 0 (worldWith (newSession ''CA1'' None [])) quietEnv ''CA1''
     ''get_customer_reservations'' noArgs
     = Some (Inr (failed (Some ''Unknown function: get_customer_reservations'')),
             worldWith (newSession ''CA1'' None [])) \<and>
   executeFunctionCall 0 (worldWith (newSession ''CA1'' None [])) quietEnv ''CA1''
     ''get_customer_name'' noArgs
     = Some (Inr (succeeded (DataReservations [])), worldWith (newSession ''CA1'' None []))"
  by (simp add: executeFunctionCall_def getSession_def worldWith_def newSession_def
        handleGetReservations_def)

section \<open>The greeting\<close>

text \<open>
  C9. The claim is that the greeting of a known caller with an upcoming reservation
  names the caller and the reservation's date and time, and that every caller gets a
  non-empty greeting. For Alice, with a reservation on 2025-06-01 at 19:00, the
  greeting is the generic text, which names neither; for a caller without a name the
  greeting is \<open>undefined\<close>.
\<close>

theorem greeting_ignores_caller:
  "fst (generateGreeting (worldWith (newSession ''CA1'' (Some alice) [dinner])) quietEnv ''CA1'')
     = Inr \<lparr>greetingText =
              Some (''Thank you for calling our clinic! I'' @ [CHR 0x27]
                    @ ''m your AI assistant and I can help'' @ lineBreak
                    @ ''you make a reservation or answer questions about clinic. ''
                    @ ''How can i help you today?''),
            greetingAudio = Some ''mp3''\<rparr> \<and>
   fst (generateGreeting (worldWith (newSession ''CA1'' (Some stranger) [])) quietEnv ''CA1'')
     = Inr \<lparr>greetingText = None, greetingAudio = None\<rparr>"
  by (simp add: generateGreeting_def getSession_def worldWith_def newSession_def
        greetingFor_def alice_def stranger_def quietEnv_def orNullStr_def
        greaterThanZero_def reservationModel_length_def textToSpeech_def Let_def)

section \<open>Finalization\<close>


lemma getSession_deleteSession [simp]: "getSession (deleteSession w callSid) callSid = None"
  by (simp add: deleteSession_def getSession_def)

lemma completions_deleteSession [simp]:
  "completions callSid (deleteSession w c) = completions callSid w"
  by (simp add: completions_def deleteSession_def)







lemma orNullStr_Some: "x \<noteq> [] \<Longrightarrow> orNullStr (Some x) = Some x"
  by (simp add: orNullStr_def)

lemma summary_not_empty: "generateCallSummary env transcript \<noteq> []"
  by (auto simp: generateCallSummary_def orNullStr_def split: sum.splits option.splits)

lemma intent_not_empty: "detectIntent env transcript \<noteq> []"
  by (auto simp: detectIntent_def Let_def split: sum.splits option.splits)

lemma sentiment_truthy: "truthy (sentiment (analyzeSentiment env transcript))"
  by (auto simp: analyzeSentiment_def truthy_def split: sum.splits option.splits json.splits)

text \<open>
  C7. \<open>handleEndCall\<close> always reaches \<open>completeCall\<close>, with one completion record of
  status completed; unless the store itself refuses that statement, the record is
  persisted, the ending result returned and the session deleted. Each of the three
  fields of the record depends on the outcome of its own request only: a failed summary
  request gives the placeholder text and a summary that arrived is kept; a failed
  intent request gives \<open>unknown\<close> and an intent that arrived is kept (lower-cased and
  trimmed); a failed sentiment request gives neutral with score 0 (bound as NULL by
  \<open>completeCall\<close>) and a sentiment that arrived is kept; whatever the other two requests
  did.
\<close>

theorem finalizer_tolerates_failed_analysis:
  "handleEndCall w env callSid session =
     (case dbError env (CompleteCall callSid (completionRecord w env callSid)) of
        Some e \<Rightarrow> (Inl e, w)
      | None \<Rightarrow>
          (Inr ((succeeded DataEnding)\<lparr>resultShouldEnd := Some True\<rparr>),
           deleteSession
             (w\<lparr>callLogs := callLogs w @ [CompleteCall callSid (completionRecord w env callSid)]\<rparr>)
             callSid)) \<and>
   cStatus (completionRecord w env callSid) = ''completed'' \<and>
   (summaryResult env = Inl e1 \<longrightarrow>
      cSummary (completionRecord w env callSid) = Some ''Unable to generate summary '') \<and>
   (summaryResult env = Inr (Some s) \<and> s \<noteq> [] \<longrightarrow>
      cSummary (completionRecord w env callSid) = Some s) \<and>
   (intentResult env = Inl e2 \<longrightarrow>
      cIntent (completionRecord w env callSid) = Some ''unknown'') \<and>
   (intentResult env = Inr (Some c) \<and> trim (toLowerCase c) \<noteq> [] \<longrightarrow>
      cIntent (completionRecord w env callSid) = Some (trim (toLowerCase c))) \<and>
   (sentimentResult env = Inl e3 \<longrightarrow>
      analyzeSentiment env (storedTranscript w callSid)
        = \<lparr>sentiment = JStr ''neutral'', score = 0\<rparr> \<and>
      cSentiment (completionRecord w env callSid) = Some (JStr ''neutral'') \<and>
      cSentimentScore (completionRecord w env callSid) = None) \<and>
   (sentimentResult env = Inr (Some a) \<and> jsonParse env a = Some (JObj props) \<and>
    map_of props ''sentiment'' = Some v \<and> truthy v \<and>
    map_of props ''score'' = Some (JNum r) \<and> r \<noteq> 0 \<longrightarrow>
      cSentiment (completionRecord w env callSid) = Some v \<and>
      cSentimentScore (completionRecord w env callSid) = Some r)"
proof (intro conjI impI)
  let ?T = "storedTranscript w callSid"
  let ?data = "\<lparr>cStatus = ''completed'', cDurationSeconds = None,
                 cTranscript = Some ?T, cSummary = Some (generateCallSummary env ?T),
                 cIntent = Some (detectIntent env ?T),
                 cSentiment = Some (sentiment (analyzeSentiment env ?T)),
                 cSentimentScore = Some (score (analyzeSentiment env ?T))\<rparr>"
  have bound: "completeCall w env callSid ?data
                 = execStmt w env (CompleteCall callSid (completionRecord w env callSid))"
    by (simp add: completeCall_def completionRecord_def orNullStr_Some summary_not_empty
          intent_not_empty sentiment_truthy)
  have "handleEndCall w env callSid session =
          (case completeCall w env callSid ?data of
             Inl e \<Rightarrow> (Inl e, w)
           | Inr w1 \<Rightarrow>
               (Inr ((succeeded DataEnding)\<lparr>resultShouldEnd := Some True\<rparr>),
                deleteSession w1 callSid))"
    by (simp add: handleEndCall_def storedTranscript_def Let_def)
  with bound
  show "handleEndCall w env callSid session =
     (case dbError env (CompleteCall callSid (completionRecord w env callSid)) of
        Some e \<Rightarrow> (Inl e, w)
      | None \<Rightarrow>
          (Inr ((succeeded DataEnding)\<lparr>resultShouldEnd := Some True\<rparr>),
           deleteSession
             (w\<lparr>callLogs := callLogs w @ [CompleteCall callSid (completionRecord w env callSid)]\<rparr>)
             callSid))"
    by (simp add: execStmt_def split: option.splits)
next
  show "cStatus (completionRecord w env callSid) = ''completed''"
    by (simp add: completionRecord_def)
next
  assume "summaryResult env = Inl e1"
  then show "cSummary (completionRecord w env callSid) = Some ''Unable to generate summary ''"
    by (simp add: completionRecord_def generateCallSummary_def)
next
  assume "summaryResult env = Inr (Some s) \<and> s \<noteq> []"
  then show "cSummary (completionRecord w env callSid) = Some s"
    by (simp add: completionRecord_def generateCallSummary_def orNullStr_def)
next
  assume "intentResult env = Inl e2"
  then show "cIntent (completionRecord w env callSid) = Some ''unknown''"
    by (simp add: completionRecord_def detectIntent_def)
next
  assume "intentResult env = Inr (Some c) \<and> trim (toLowerCase c) \<noteq> []"
  then show "cIntent (completionRecord w env callSid) = Some (trim (toLowerCase c))"
    by (simp add: completionRecord_def detectIntent_def Let_def)
next
  assume failed: "sentimentResult env = Inl e3"
  then show "analyzeSentiment env (storedTranscript w callSid)
               = \<lparr>sentiment = JStr ''neutral'', score = 0\<rparr>"
    by (simp add: analyzeSentiment_def)
  from failed show "cSentiment (completionRecord w env callSid) = Some (JStr ''neutral'')"
    by (simp add: completionRecord_def analyzeSentiment_def)
  from failed show "cSentimentScore (completionRecord w env callSid) = None"
    by (simp add: completionRecord_def analyzeSentiment_def)
next
  assume arrived: "sentimentResult env = Inr (Some a) \<and> jsonParse env a = Some (JObj props) \<and>
    map_of props ''sentiment'' = Some v \<and> truthy v \<and>
    map_of props ''score'' = Some (JNum r) \<and> r \<noteq> 0"
  then show "cSentiment (completionRecord w env callSid) = Some v"
    by (simp add: completionRecord_def analyzeSentiment_def)
  from arrived show "cSentimentScore (completionRecord w env callSid) = Some r"
    by (simp add: completionRecord_def analyzeSentiment_def)
qed

theorem finalizer_tolerates_failed_analysis_witness:
  "summaryResult intentFailsEnv = Inr (Some ''A short call.'') \<and>
   intentResult intentFailsEnv = Inl (Error ''timeout'') \<and>
   sentimentResult intentFailsEnv = Inr (Some ''happy'') \<and>
   handleEndCall (worldWith talked) intentFailsEnv ''CA1'' talked
     = (Inr ((succeeded DataEnding)\<lparr>resultShouldEnd := Some True\<rparr>),
        deleteSession
          ((worldWith talked)
             \<lparr>callLogs := callLogs (worldWith talked) @
                [CompleteCall ''CA1'' (completionRecord (worldWith talked) intentFailsEnv ''CA1'')]\<rparr>)
          ''CA1'') \<and>
   cStatus (completionRecord (worldWith talked) intentFailsEnv ''CA1'') = ''completed'' \<and>
   cSummary (completionRecord (worldWith talked) intentFailsEnv ''CA1'') = Some ''A short call.'' \<and>
   cIntent (completionRecord (worldWith talked) intentFailsEnv ''CA1'') = Some ''unknown'' \<and>
   cSentiment (completionRecord (worldWith talked) intentFailsEnv ''CA1'')
     = Some (JStr ''positive'') \<and>
   cSentimentScore (completionRecord (worldWith talked) intentFailsEnv ''CA1'') = Some (7 / 10) \<and>
   cSummary (completionRecord (worldWith talked) failingAnalysisEnv ''CA1'')
     = Some ''Unable to generate summary '' \<and>
   cSentiment (completionRecord (worldWith talked) failingAnalysisEnv ''CA1'')
     = Some (JStr ''neutral'')"
proof -
  let ?w = "worldWith talked"
  have outcomes: "summaryResult intentFailsEnv = Inr (Some ''A short call.'')"
    "intentResult intentFailsEnv = Inl (Error ''timeout'')"
    "sentimentResult intentFailsEnv = Inr (Some ''happy'')"
    "jsonParse intentFailsEnv ''happy''
       = Some (JObj [(''sentiment'', JStr ''positive''), (''score'', JNum (7 / 10))])"
    by (simp_all add: intentFailsEnv_def quietEnv_def)
  have props: "map_of [(''sentiment'', JStr ''positive''), (''score'', JNum (7 / 10))] ''sentiment''
                 = Some (JStr ''positive'')"
    "truthy (JStr ''positive'')"
    "map_of [(''sentiment'', JStr ''positive''), (''score'', JNum (7 / 10))] ''score''
                 = Some (JNum (7 / 10))"
    "(7 / 10 :: rat) \<noteq> 0" "''A short call.'' \<noteq> []"
    by (simp_all add: truthy_def)
  have accepted: "dbError intentFailsEnv stmt = None" for stmt
    by (simp add: intentFailsEnv_def quietEnv_def)
  have failing: "summaryResult failingAnalysisEnv = Inl (Error ''timeout'')"
    "sentimentResult failingAnalysisEnv = Inl (Error ''timeout'')"
    by (simp_all add: failingAnalysisEnv_def)
  note one = finalizer_tolerates_failed_analysis
      [where w = ?w and env = intentFailsEnv and callSid = "''CA1''" and session = talked
         and s = "''A short call.''" and ?e2.0 = "Error ''timeout''" and a = "''happy''"
         and props = "[(''sentiment'', JStr ''positive''), (''score'', JNum (7 / 10))]"
         and v = "JStr ''positive''" and r = "7 / 10"]
  note all = finalizer_tolerates_failed_analysis
      [where w = ?w and env = failingAnalysisEnv and callSid = "''CA1''" and session = talked
         and ?e1.0 = "Error ''timeout''" and ?e3.0 = "Error ''timeout''"]
  from one accepted
  have ended: "handleEndCall ?w intentFailsEnv ''CA1'' talked
     = (Inr ((succeeded DataEnding)\<lparr>resultShouldEnd := Some True\<rparr>),
        deleteSession
          (?w\<lparr>callLogs := callLogs ?w @
                [CompleteCall ''CA1'' (completionRecord ?w intentFailsEnv ''CA1'')]\<rparr>)
          ''CA1'')"
    by simp
  from one outcomes props
  have kept: "cStatus (completionRecord ?w intentFailsEnv ''CA1'') = ''completed''"
    "cSummary (completionRecord ?w intentFailsEnv ''CA1'') = Some ''A short call.''"
    "cIntent (completionRecord ?w intentFailsEnv ''CA1'') = Some ''unknown''"
    "cSentiment (completionRecord ?w intentFailsEnv ''CA1'') = Some (JStr ''positive'')"
    "cSentimentScore (completionRecord ?w intentFailsEnv ''CA1'') = Some (7 / 10)"
    by simp_all
  from all failing
  have placeholders: "cSummary (completionRecord ?w failingAnalysisEnv ''CA1'')
                        = Some ''Unable to generate summary ''"
    "cSentiment (completionRecord ?w failingAnalysisEnv ''CA1'') = Some (JStr ''neutral'')"
    by simp_all
  from outcomes(1-3) ended kept placeholders show ?thesis by (intro conjI)
qed

section \<open>Session creation\<close>

lemma initializeConversation_throws:
  "\<exists>e w1. initializeConversation w env callSid fromNumber toNumber = (Inl e, w1) \<and>
          sessions w1 = sessions w \<and> callLogs w1 = callLogs w"
  by (auto simp: initializeConversation_def findOrCreate_def callLogCreate_def Let_def
        split: option.splits sum.splits prod.splits)

text \<open>
  C2, as the code has it. The session store does not refuse a second create:
  \<open>setSession\<close> is create-or-update, it replaces the session stored for the call and
  reports nothing, the sessions of other calls being untouched. For a call that has a
  live session, \<open>initializeConversation\<close> does fail loudly, with the error its store
  calls throw before the session write (the call-log insert comes first and does not
  go through), and the stored session and the call log are left as they were.
\<close>

theorem repeated_initialization_keeps_session:
  "getSession (setSession w callSid s) callSid = Some s \<and>
   (\<forall>other. other \<noteq> callSid \<longrightarrow>
      getSession (setSession w callSid s) other = getSession w other) \<and>
   (getSession w callSid = Some live \<longrightarrow>
      (\<exists>e w1. initializeConversation w env callSid fromNumber toNumber = (Inl e, w1) \<and>
              getSession w1 callSid = Some live \<and> sessions w1 = sessions w \<and>
              callLogs w1 = callLogs w))"
proof (intro conjI impI allI)
  show "getSession (setSession w callSid s) callSid = Some s"
    by (simp add: getSession_def setSession_def)
next
  fix other
  assume "other \<noteq> callSid"
  then show "getSession (setSession w callSid s) other = getSession w other"
    by (simp add: getSession_def setSession_def)
next
  assume live: "getSession w callSid = Some live"
  from initializeConversation_throws[of w env callSid fromNumber toNumber]
  obtain e w1 where thrown: "initializeConversation w env callSid fromNumber toNumber = (Inl e, w1)"
    and same: "sessions w1 = sessions w" "callLogs w1 = callLogs w"
    by (elim exE conjE)
  from live same(1) have "getSession w1 callSid = Some live"
    by (simp add: getSession_def)
  with thrown same
  show "\<exists>e w1. initializeConversation w env callSid fromNumber toNumber = (Inl e, w1) \<and>
              getSession w1 callSid = Some live \<and> sessions w1 = sessions w \<and>
              callLogs w1 = callLogs w"
    by (intro exI[of _ e] exI[of _ w1] conjI)
qed

theorem repeated_initialization_keeps_session_witness:
  "getSession (worldWith talked) ''CA1'' = Some talked \<and>
   getSession (setSession (worldWith talked) ''CA1'' (newSession ''CA1'' None [])) ''CA1''
     = Some (newSession ''CA1'' None []) \<and>
   (\<exists>e w1. initializeConversation (worldWith talked) quietEnv ''CA1'' ''+15550100''
              ''+15550199'' = (Inl e, w1) \<and>
           getSession w1 ''CA1'' = Some talked \<and> sessions w1 = sessions (worldWith talked) \<and>
           callLogs w1 = callLogs (worldWith talked))"
proof -
  have live: "getSession (worldWith talked) ''CA1'' = Some talked"
    by (simp add: getSession_def worldWith_def talked_def newSession_def)
  note inst = repeated_initialization_keeps_session
      [where w = "worldWith talked" and callSid = "''CA1''"
         and s = "newSession ''CA1'' None []" and live = talked and env = quietEnv
         and fromNumber = "''+15550100''" and toNumber = "''+15550199''"]
  from inst have stored:
    "getSession (setSession (worldWith talked) ''CA1'' (newSession ''CA1'' None [])) ''CA1''
       = Some (newSession ''CA1'' None [])"
    by (rule conjunct1)
  from inst live
  have "\<exists>e w1. initializeConversation (worldWith talked) quietEnv ''CA1'' ''+15550100''
              ''+15550199'' = (Inl e, w1) \<and>
           getSession w1 ''CA1'' = Some talked \<and> sessions w1 = sessions (worldWith talked) \<and>
           callLogs w1 = callLogs (worldWith talked)"
    by simp
  with live stored show ?thesis by (intro conjI)
qed

text \<open>
  C2, as claimed, fails. The call CA1 has a session with one entry in its history;
  storing a fresh session for CA1 replaces it, with no failure. And the failure of
  \<open>initializeConversation\<close> is no AlreadyExists failure: it is the same database error
  for CA1 with its live session as for a store that holds no session at all.
\<close>

theorem store_overwrites_silently:
  "getSession (worldWith talked) ''CA1'' = Some talked \<and>
   messageHistory talked = [\<lparr>role = User, content = Some ''hello'', timestamp = 1\<rparr>] \<and>
   getSession
     (setSession (worldWith talked) ''CA1'' (newSession ''CA1'' (Some alice) [dinner])) ''CA1''
     = Some (newSession ''CA1'' (Some alice) [dinner]) \<and>
   messageHistory (newSession ''CA1'' (Some alice) [dinner]) = [] \<and>
   getSession emptyWorld ''CA1'' = None \<and>
   fst (initializeConversation emptyWorld quietEnv ''CA1'' ''+15550100'' ''+15550199'')
     = Inl (Error (''syntax error at or near '' @ [CHR 0x22] @ ''in'' @ [CHR 0x22])) \<and>
   fst (initializeConversation (worldWith talked) quietEnv ''CA1'' ''+15550100'' ''+15550199'')
     = Inl (Error (''syntax error at or near '' @ [CHR 0x22] @ ''in'' @ [CHR 0x22]))"
  by (simp add: initializeConversation_def findOrCreate_def findByPhone_def callLogCreate_def
        setSession_def getSession_def worldWith_def emptyWorld_def talked_def newSession_def
        quietEnv_def alice_def Let_def)

section \<open>The message history\<close>











section \<open>The turn guard\<close>

lemma onTranscript_guard: "isProcessing s \<Longrightarrow> onTranscript s utterance = s"
  by (simp add: onTranscript_def split: option.splits)

lemma run_while_processing:
  "isProcessing s \<Longrightarrow> \<forall>e \<in> set events. isTranscript e \<Longrightarrow> run s events = s"
proof (induction events)
  case Nil
  show ?case by (simp add: run_def)
next
  case (Cons e events)
  from Cons.prems have "step s e = s"
    by (cases e) (simp_all add: isTranscript_def onTranscript_guard)
  with Cons show ?case by (simp add: run_def)
qed

text \<open>
  C1. On a media-stream connection, a final transcript that arrives while a turn is in
  flight changes nothing: it is not queued and starts no call of \<open>processInput\<close>. From
  an idle connection, a final transcript followed by any number of further final or
  interim transcripts, with no turn settling in between, makes exactly one call of
  \<open>processInput\<close>, the one for the first transcript. When the pending call returns or
  throws, the flag is cleared.
\<close>

theorem turn_guard:
  "(isProcessing s \<longrightarrow> step s (FinalTranscript utterance) = s) \<and>
   (orNullStr (streamCallSid s) = Some callSid \<and> \<not> isProcessing s \<and>
    (\<forall>e \<in> set events. isTranscript e) \<longrightarrow>
      rounds (run s (FinalTranscript utterance # events)) = rounds s @ [(callSid, utterance)] \<and>
      isProcessing (run s (FinalTranscript utterance # events)) \<and>
      inFlight (run s (FinalTranscript utterance # events)) = Some (callSid, utterance)) \<and>
   (inFlight s = Some (callSid, utterance) \<and>
    processInput fuel (world s) env callSid utterance = Some (outcome, w1) \<longrightarrow>
      \<not> isProcessing (step s (TurnSettles fuel env)) \<and>
      inFlight (step s (TurnSettles fuel env)) = None \<and>
      rounds (step s (TurnSettles fuel env)) = rounds s \<and>
      world (step s (TurnSettles fuel env)) = w1)"
proof (intro conjI impI)
  assume "isProcessing s"
  then show "step s (FinalTranscript utterance) = s"
    by (simp add: onTranscript_guard)
next
  assume a: "orNullStr (streamCallSid s) = Some callSid \<and> \<not> isProcessing s \<and>
             (\<forall>e \<in> set events. isTranscript e)"
  let ?s1 = "s\<lparr>isProcessing := True, inFlight := Some (callSid, utterance),
               rounds := rounds s @ [(callSid, utterance)]\<rparr>"
  from a have first: "step s (FinalTranscript utterance) = ?s1"
    by (simp add: onTranscript_def)
  have "isProcessing ?s1" by simp
  from run_while_processing[OF this] a have "run ?s1 events = ?s1" by blast
  with first have all: "run s (FinalTranscript utterance # events) = ?s1"
    by (simp add: run_def)
  from all show "rounds (run s (FinalTranscript utterance # events))
                   = rounds s @ [(callSid, utterance)]" by simp
  from all show "isProcessing (run s (FinalTranscript utterance # events))" by simp
  from all show "inFlight (run s (FinalTranscript utterance # events))
                   = Some (callSid, utterance)" by simp
next
  assume b: "inFlight s = Some (callSid, utterance) \<and>
             processInput fuel (world s) env callSid utterance = Some (outcome, w1)"
  then show "\<not> isProcessing (step s (TurnSettles fuel env))"
    by (cases outcome) (simp_all add: turnSettles_def)
  from b show "inFlight (step s (TurnSettles fuel env)) = None"
    by (cases outcome) (simp_all add: turnSettles_def)
  from b show "rounds (step s (TurnSettles fuel env)) = rounds s"
    by (cases outcome) (simp_all add: turnSettles_def)
  from b show "world (step s (TurnSettles fuel env)) = w1"
    by (cases outcome) (simp_all add: turnSettles_def)
qed

theorem turn_guard_witness:
  "orNullStr (streamCallSid idleStream) = Some ''CA1'' \<and> \<not> isProcessing idleStream \<and>
   isTranscript (InterimTranscript ''and'') \<and> isTranscript (FinalTranscript ''for four'') \<and>
   rounds (run idleStream [FinalTranscript ''book a table'', InterimTranscript ''and'',
                           FinalTranscript ''for four''])
     = [(''CA1'', ''book a table'')] \<and>
   isProcessing (run idleStream [FinalTranscript ''book a table'', InterimTranscript ''and'',
                                 FinalTranscript ''for four'']) \<and>
   step (run idleStream [FinalTranscript ''book a table'', InterimTranscript ''and'',
                         FinalTranscript ''for four'']) (FinalTranscript ''hello?'')
     = run idleStream [FinalTranscript ''book a table'', InterimTranscript ''and'',
                       FinalTranscript ''for four''] \<and>
   processInput 0 (world (run idleStream [FinalTranscript ''book a table'',
                            InterimTranscript ''and'', FinalTranscript ''for four'']))
       brokenEnv ''CA1'' ''book a table''
     = Some (Inl (Error ''model unavailable''),
             addMessage (worldWith (newSession ''CA1'' (Some alice) [dinner])) ''CA1''
               \<lparr>role = User, content = Some ''book a table'', timestamp = 1\<rparr>) \<and>
   \<not> isProcessing
       (step (run idleStream [FinalTranscript ''book a table'', InterimTranscript ''and'',
                              FinalTranscript ''for four''])
          (TurnSettles 0 brokenEnv))"
proof -
  let ?events = "[InterimTranscript ''and'', FinalTranscript ''for four'']"
  let ?busy = "run idleStream (FinalTranscript ''book a table'' # ?events)"
  let ?w1 = "addMessage (worldWith (newSession ''CA1'' (Some alice) [dinner])) ''CA1''
               \<lparr>role = User, content = Some ''book a table'', timestamp = 1\<rparr>"
  have idle: "orNullStr (streamCallSid idleStream) = Some ''CA1''" "\<not> isProcessing idleStream"
    by (simp_all add: idleStream_def orNullStr_def)
  have transcripts: "isTranscript (InterimTranscript ''and'')"
    "isTranscript (FinalTranscript ''for four'')"
    by (simp_all add: isTranscript_def)
  then have events: "\<forall>e \<in> set ?events. isTranscript e" by simp
  from turn_guard[where s = idleStream and utterance = "''book a table''"
                    and callSid = "''CA1''" and events = ?events] idle events
  have accepted: "rounds ?busy = rounds idleStream @ [(''CA1'', ''book a table'')]"
    "isProcessing ?busy" "inFlight ?busy = Some (''CA1'', ''book a table'')"
    by blast+
  from accepted(1) have one: "rounds ?busy = [(''CA1'', ''book a table'')]"
    by (simp add: idleStream_def)
  from turn_guard[where s = ?busy and utterance = "''hello?''"] accepted(2)
  have dropped: "step ?busy (FinalTranscript ''hello?'') = ?busy" by blast
  have failing: "processInput 0 (world ?busy) brokenEnv ''CA1'' ''book a table''
                   = Some (Inl (Error ''model unavailable''), ?w1)"
    by (simp add: run_def onTranscript_def idleStream_def orNullStr_def processInput_def
          getSession_def addMessage_def setSession_def worldWith_def newSession_def
          brokenEnv_def quietEnv_def Let_def)
  from turn_guard[where s = ?busy and callSid = "''CA1''" and utterance = "''book a table''"
                    and fuel = 0 and env = brokenEnv
                    and outcome = "Inl (Error ''model unavailable'')" and ?w1.0 = ?w1]
    accepted(3) failing
  have released: "\<not> isProcessing (step ?busy (TurnSettles 0 brokenEnv))" by blast
  from idle transcripts one accepted(2) dropped failing released show ?thesis
    by (intro conjI)
qed

end
